theory Spec2Isabelle
  imports Complex_Main
begin

section \<open>The closed-loop depth simulation of \<^verbatim>\<open>uuv_mission/dynamic.py\<close>\<close>

text \<open>
  The module simulates a submarine (the plant) steered by a PD controller along a
  reference depth. The embedding follows the Python classes one by one: an object
  is a record of its attributes, a method takes the object and returns it updated,
  and a method that can raise returns the error next to the object as the raise
  left it.

  Numbers: Python's \<^verbatim>\<open>int\<close>, \<^verbatim>\<open>float\<close> and numpy's \<^verbatim>\<open>float64\<close> are idealised as
  the real numbers. Rounding, infinities and NaN are outside the model. A numpy
  array of shape \<open>(T)\<close> is a \<open>real list\<close>, one of shape \<open>(T, 2)\<close> a list of pairs.
\<close>

subsection \<open>Errors\<close>

text \<open>
  \<^verbatim>\<open>ValueError\<close> is the only exception the module raises itself (with its message).
  \<^verbatim>\<open>IndexError\<close> is what an index out of range raises, and \<^verbatim>\<open>ZeroDivisionError\<close> what
  Python's \<^verbatim>\<open>/\<close> raises on a zero divisor.
\<close>

datatype error = ValueError string | IndexError | ZeroDivisionError

text \<open>Reading \<^verbatim>\<open>xs[t]\<close> and writing \<^verbatim>\<open>xs[t] = v\<close> for an index \<open>t \<ge> 0\<close>.\<close>

definition getitem :: "'a list \<Rightarrow> nat \<Rightarrow> error + 'a" where
  "getitem xs t = (if t < length xs then Inr (xs ! t) else Inl IndexError)"

definition setitem :: "'a list \<Rightarrow> nat \<Rightarrow> 'a \<Rightarrow> error + 'a list" where
  "setitem xs t v = (if t < length xs then Inr (xs[t := v]) else Inl IndexError)"

subsection \<open>Submarine\<close>

record Submarine =
  mass :: real
  drag :: real
  actuator_gain :: real
  dt :: real
  pos_x :: real
  pos_y :: real
  vel_x :: real
  vel_y :: real

text \<open>\<^verbatim>\<open>Submarine.__init__\<close>\<close>

definition Submarine_init :: Submarine where
  "Submarine_init =
     \<lparr>mass = 1, drag = 0.1, actuator_gain = 1, dt = 1,
      pos_x = 0, pos_y = 0, vel_x = 1, vel_y = 0\<rparr>"

text \<open>
  \<^verbatim>\<open>Submarine.transition\<close>: the two positions are assigned first, then the force is
  computed, then the division by the mass, then the velocity is assigned. Python's
  \<^verbatim>\<open>/\<close> on a zero mass raises at the division, after both positions have been
  assigned (on numpy scalars the quotient would be \<^verbatim>\<open>inf\<close> or \<^verbatim>\<open>nan\<close>, which the reals do
  not have). \<^verbatim>\<open>__init__\<close> sets the mass to 1 and nothing in the module assigns it
  again; the theorems that need the quotient assume a nonzero mass.
\<close>

definition transition :: "Submarine \<Rightarrow> real \<Rightarrow> real \<Rightarrow> (error + unit) \<times> Submarine" where
  "transition self action disturbance =
     (let self1 = self\<lparr>pos_x := pos_x self + vel_x self * dt self\<rparr>;
          self2 = self1\<lparr>pos_y := pos_y self1 + vel_y self1 * dt self1\<rparr>;
          force_y = - drag self2 * vel_y self2 + actuator_gain self2 * (action + disturbance)
      in if mass self2 = 0 then (Inl ZeroDivisionError, self2)
         else let acc_y = force_y / mass self2
              in (Inr (), self2\<lparr>vel_y := vel_y self2 + acc_y * dt self2\<rparr>))"

definition get_depth :: "Submarine \<Rightarrow> real" where
  "get_depth self = pos_y self"

definition get_position :: "Submarine \<Rightarrow> real \<times> real" where
  "get_position self = (pos_x self, pos_y self)"

definition reset_state :: "Submarine \<Rightarrow> Submarine" where
  "reset_state self = self\<lparr>pos_x := 0, pos_y := 0, vel_x := 1, vel_y := 0\<rparr>"

subsection \<open>Trajectory and Mission\<close>

record Trajectory =
  position :: "(real \<times> real) list"

record Mission =
  reference :: "real list"
  cave_height :: "real list"
  cave_depth :: "real list"

text \<open>
  \<^verbatim>\<open>Mission\<close> is a plain \<^verbatim>\<open>@dataclass\<close>: the generated constructor assigns the three
  fields and has no check and no \<^verbatim>\<open>__post_init__\<close>, so it has no failing branch.
\<close>

definition Mission_init :: "real list \<Rightarrow> real list \<Rightarrow> real list \<Rightarrow> error + Mission" where
  "Mission_init r h d = Inr \<lparr>reference = r, cave_height = h, cave_depth = d\<rparr>"

subsection \<open>Control\<close>

text \<open>
  \<^verbatim>\<open>current_error\<close> is an attribute that \<^verbatim>\<open>__init__\<close> does not create: it exists only
  after the first call of \<^verbatim>\<open>controller\<close>.
\<close>

record Control =
  Kp :: real
  Kd :: real
  previous_error :: real
  current_error :: "real option"

definition Control_init :: Control where
  "Control_init = \<lparr>Kp = 0.15, Kd = 0.6, previous_error = 0, current_error = None\<rparr>"

text \<open>
  \<^verbatim>\<open>Control.controller\<close> (the method; \<open>controller\<close> alone is the attribute of
  \<^verbatim>\<open>ClosedLoop\<close> below). Reading \<^verbatim>\<open>mission.reference[t]\<close> out of range raises before
  anything is assigned.
\<close>

definition Control_controller ::
  "Control \<Rightarrow> nat \<Rightarrow> Mission \<Rightarrow> real \<Rightarrow> (error + real) \<times> Control" where
  "Control_controller self t mission observation_t =
     (case getitem (reference mission) t of
        Inl e \<Rightarrow> (Inl e, self)
      | Inr r \<Rightarrow>
          (let self1 = self\<lparr>current_error := Some (r - observation_t)\<rparr>;
               ce = r - observation_t;
               u_t = Kp self1 * ce + Kd self1 * (ce - previous_error self1);
               self2 = self1\<lparr>previous_error := ce\<rparr>
           in (Inr u_t, self2)))"

subsection \<open>ClosedLoop\<close>

record ClosedLoop =
  plant :: Submarine
  controller :: Control

definition ClosedLoop_init :: "Submarine \<Rightarrow> Control \<Rightarrow> ClosedLoop" where
  "ClosedLoop_init p c = \<lparr>plant = p, controller = c\<rparr>"

text \<open>
  The body of the \<^verbatim>\<open>for t in range(T)\<close> loop of \<^verbatim>\<open>simulate\<close>, on the loop's variables
  \<open>positions\<close> and \<open>actions\<close>. Each statement that can raise ends the body with the
  objects as they are at that point.
\<close>

type_synonym loop_vars = "(real \<times> real) list \<times> real list"

definition loop_body ::
  "nat \<Rightarrow> Mission \<Rightarrow> real list \<Rightarrow> ClosedLoop \<Rightarrow> loop_vars \<Rightarrow> (error + loop_vars) \<times> ClosedLoop" where
  "loop_body t mission disturbances self vars =
     (case setitem (fst vars) t (get_position (plant self)) of
        Inl e \<Rightarrow> (Inl e, self)
      | Inr positions \<Rightarrow>
          (let observation_t = get_depth (plant self) in
           case Control_controller (controller self) t mission observation_t of
             (Inl e, c) \<Rightarrow> (Inl e, self\<lparr>controller := c\<rparr>)
           | (Inr u_t, c) \<Rightarrow>
               (let self1 = self\<lparr>controller := c\<rparr> in
                case setitem (snd vars) t u_t of
                  Inl e \<Rightarrow> (Inl e, self1)
                | Inr actions \<Rightarrow>
                    (case getitem actions t of
                       Inl e \<Rightarrow> (Inl e, self1)
                     | Inr a \<Rightarrow>
                         (case getitem disturbances t of
                            Inl e \<Rightarrow> (Inl e, self1)
                          | Inr d \<Rightarrow>
                              (case transition (plant self1) a d of
                                 (Inl e, p) \<Rightarrow> (Inl e, self1\<lparr>plant := p\<rparr>)
                               | (Inr u, p) \<Rightarrow>
                                   (Inr (positions, actions), self1\<lparr>plant := p\<rparr>)))))))"

text \<open>The loop over the indices \<^verbatim>\<open>range(T)\<close>, given as the list \<open>[0..<T]\<close>.\<close>

fun simulate_loop ::
  "nat list \<Rightarrow> Mission \<Rightarrow> real list \<Rightarrow> ClosedLoop \<Rightarrow> loop_vars \<Rightarrow> (error + loop_vars) \<times> ClosedLoop" where
  "simulate_loop [] mission disturbances self vars = (Inr vars, self)"
| "simulate_loop (t # ts) mission disturbances self vars =
     (case loop_body t mission disturbances self vars of
        (Inl e, self') \<Rightarrow> (Inl e, self')
      | (Inr vars', self') \<Rightarrow> simulate_loop ts mission disturbances self' vars')"

text \<open>
  \<^verbatim>\<open>ClosedLoop.simulate\<close>: the length check comes first and raises before
  \<^verbatim>\<open>reset_state\<close> is called.
\<close>

definition simulate ::
  "ClosedLoop \<Rightarrow> Mission \<Rightarrow> real list \<Rightarrow> (error + Trajectory) \<times> ClosedLoop" where
  "simulate self mission disturbances =
     (let T = length (reference mission) in
      if length disturbances < T
      then (Inl (ValueError ''Disturbances must be at least as long as mission duration''), self)
      else
        (let positions = replicate T (0, 0);
             actions = replicate T 0;
             self1 = self\<lparr>plant := reset_state (plant self)\<rparr>
         in case simulate_loop [0..<T] mission disturbances self1 (positions, actions) of
              (Inl e, self') \<Rightarrow> (Inl e, self')
            | (Inr vars, self') \<Rightarrow> (Inr \<lparr>position = fst vars\<rparr>, self')))"

subsection \<open>Observing a run\<close>

text \<open>
  \<open>before_step self mission disturbances t\<close> is the pair of objects when the loop of
  \<open>simulate\<close> reaches index \<open>t\<close>: the plant has been reset and the iterations
  \<open>0, \<dots>, t - 1\<close> have run. \<open>action_at\<close> is the value the controller returns at
  index \<open>t\<close>, the one stored in \<^verbatim>\<open>actions[t]\<close>.
\<close>

definition before_step :: "ClosedLoop \<Rightarrow> Mission \<Rightarrow> real list \<Rightarrow> nat \<Rightarrow> ClosedLoop" where
  "before_step self mission disturbances t =
     snd (simulate_loop [0..<t] mission disturbances
            (self\<lparr>plant := reset_state (plant self)\<rparr>)
            (replicate (length (reference mission)) (0, 0),
             replicate (length (reference mission)) 0))"

definition action_at :: "ClosedLoop \<Rightarrow> Mission \<Rightarrow> real list \<Rightarrow> nat \<Rightarrow> real" where
  "action_at self mission disturbances t =
     projr (fst (Control_controller (controller (before_step self mission disturbances t)) t mission
                   (get_depth (plant (before_step self mission disturbances t)))))"

text \<open>
  What a run reads of the two objects once the plant is reset: the whole plant, and
  of the controller its gains and its previous error (\<^verbatim>\<open>current_error\<close> is only
  written).
\<close>

definition same_run_inputs :: "ClosedLoop \<Rightarrow> ClosedLoop \<Rightarrow> bool" where
  "same_run_inputs a b =
     (plant a = plant b \<and> Kp (controller a) = Kp (controller b)
      \<and> Kd (controller a) = Kd (controller b)
      \<and> previous_error (controller a) = previous_error (controller b))"

section \<open>Auxiliary facts\<close>

subsection \<open>One call of each method\<close>

lemma Control_controller_ok:
  "t < length (reference mission) \<Longrightarrow>
   Control_controller self t mission obs =
     (Inr (Kp self * (reference mission ! t - obs)
           + Kd self * ((reference mission ! t - obs) - previous_error self)),
      self\<lparr>current_error := Some (reference mission ! t - obs),
           previous_error := reference mission ! t - obs\<rparr>)"
  by (simp add: Control_controller_def getitem_def Let_def)

lemma transition_ok:
  "mass self \<noteq> 0 \<Longrightarrow>
   transition self action disturbance =
     (Inr (),
      self\<lparr>pos_x := pos_x self + vel_x self * dt self,
           pos_y := pos_y self + vel_y self * dt self,
           vel_y := vel_y self
             + (- drag self * vel_y self + actuator_gain self * (action + disturbance))
               / mass self * dt self\<rparr>)"
  by (simp add: transition_def Let_def)

lemma transition_frame:
  assumes "transition self a d = (r, p)"
  shows "mass p = mass self \<and> drag p = drag self \<and> actuator_gain p = actuator_gain self
         \<and> dt p = dt self \<and> vel_x p = vel_x self"
  using assms by (auto simp add: transition_def Let_def split: if_splits)

lemma Control_controller_frame:
  assumes "Control_controller self t m obs = (r, c)"
  shows "Kp c = Kp self \<and> Kd c = Kd self"
  using assms by (auto simp add: Control_controller_def Let_def split: sum.splits)

subsection \<open>The loop\<close>

lemma loop_body_frame:
  assumes "loop_body t m d self vars = (r, self')"
  shows "mass (plant self') = mass (plant self) \<and> drag (plant self') = drag (plant self)
     \<and> actuator_gain (plant self') = actuator_gain (plant self)
     \<and> dt (plant self') = dt (plant self) \<and> vel_x (plant self') = vel_x (plant self)
     \<and> Kp (controller self') = Kp (controller self) \<and> Kd (controller self') = Kd (controller self)"
  using assms
  by (auto simp add: loop_body_def Let_def split: sum.splits prod.splits
      dest!: transition_frame Control_controller_frame)

lemma simulate_loop_frame:
  assumes "simulate_loop ts m d self vars = (r, self')"
  shows "mass (plant self') = mass (plant self) \<and> drag (plant self') = drag (plant self)
     \<and> actuator_gain (plant self') = actuator_gain (plant self)
     \<and> dt (plant self') = dt (plant self) \<and> vel_x (plant self') = vel_x (plant self)
     \<and> Kp (controller self') = Kp (controller self) \<and> Kd (controller self') = Kd (controller self)"
  using assms
proof (induction ts arbitrary: self vars)
  case Nil
  then show ?case by simp
next
  case (Cons t ts)
  obtain r1 s1 where b: "loop_body t m d self vars = (r1, s1)"
    by (cases "loop_body t m d self vars")
  note f = loop_body_frame [OF b]
  show ?case
  proof (cases r1)
    case (Inl e)
    with Cons.prems b f show ?thesis by simp
  next
    case (Inr v)
    with Cons.prems b have "simulate_loop ts m d s1 v = (r, self')" by simp
    from Cons.IH [OF this] f show ?thesis by simp
  qed
qed

lemma loop_body_ok:
  assumes "t < length ps" "t < length acts" "t < length (reference mission)"
    "t < length disturbances" "mass (plant self) \<noteq> 0"
  shows "loop_body t mission disturbances self (ps, acts) =
     (Inr (ps[t := get_position (plant self)],
           acts[t := projr (fst (Control_controller (controller self) t mission (get_depth (plant self))))]),
      \<lparr>plant = snd (transition (plant self)
           (projr (fst (Control_controller (controller self) t mission (get_depth (plant self)))))
           (disturbances ! t)),
       controller = snd (Control_controller (controller self) t mission (get_depth (plant self)))\<rparr>)"
  using assms
  by (simp add: loop_body_def Let_def setitem_def getitem_def Control_controller_ok transition_ok)

lemma simulate_loop_append:
  "simulate_loop (ts @ us) m d self vars =
     (case simulate_loop ts m d self vars of
        (Inl e, self') \<Rightarrow> (Inl e, self')
      | (Inr vars', self') \<Rightarrow> simulate_loop us m d self' vars')"
proof (induction ts arbitrary: self vars)
  case Nil
  show ?case by simp
next
  case (Cons t ts)
  show ?case
    by (cases "loop_body t m d self vars") (auto simp add: Cons.IH split: sum.splits)
qed

subsection \<open>The state of a run, index by index\<close>

lemma update_next:
  "k < T \<Longrightarrow>
   (map f [0..<k] @ replicate (T - k) z)[k := v] = map f [0..<k] @ v # replicate (T - Suc k) z"
proof -
  assume "k < T"
  then have "T - k = Suc (T - Suc k)" by simp
  then show ?thesis by (simp add: list_update_append)
qed

lemma before_step_mass:
  "mass (plant (before_step self m d t)) = mass (plant self)"
proof -
  obtain r s where e: "simulate_loop [0..<t] m d (self\<lparr>plant := reset_state (plant self)\<rparr>)
      (replicate (length (reference m)) (0, 0), replicate (length (reference m)) 0) = (r, s)"
    by (cases "simulate_loop [0..<t] m d (self\<lparr>plant := reset_state (plant self)\<rparr>)
      (replicate (length (reference m)) (0, 0), replicate (length (reference m)) 0)")
  from simulate_loop_frame [OF e] have "mass (plant s) = mass (plant self)"
    by (simp add: reset_state_def)
  then show ?thesis
    by (simp add: before_step_def e)
qed

lemma run_prefix:
  assumes "length (reference m) \<le> length d" and "mass (plant self) \<noteq> 0"
    and "k \<le> length (reference m)"
  shows "simulate_loop [0..<k] m d (self\<lparr>plant := reset_state (plant self)\<rparr>)
           (replicate (length (reference m)) (0, 0), replicate (length (reference m)) 0)
         = (Inr (map (\<lambda>t. get_position (plant (before_step self m d t))) [0..<k]
                   @ replicate (length (reference m) - k) (0, 0),
                 map (action_at self m d) [0..<k] @ replicate (length (reference m) - k) 0),
            before_step self m d k)"
  using assms(3)
proof (induction k)
  case 0
  show ?case by (simp add: before_step_def)
next
  case (Suc k)
  let ?T = "length (reference m)"
  let ?s0 = "self\<lparr>plant := reset_state (plant self)\<rparr>"
  let ?v0 = "(replicate ?T (0::real, 0::real), replicate ?T (0::real))"
  let ?ps = "map (\<lambda>t. get_position (plant (before_step self m d t))) [0..<k] @ replicate (?T - k) (0, 0)"
  let ?as = "map (action_at self m d) [0..<k] @ replicate (?T - k) 0"
  from Suc.prems have k: "k < ?T" by simp
  then have IH: "simulate_loop [0..<k] m d ?s0 ?v0 = (Inr (?ps, ?as), before_step self m d k)"
    using Suc.IH by simp
  have body: "loop_body k m d (before_step self m d k) (?ps, ?as) =
     (Inr (?ps[k := get_position (plant (before_step self m d k))],
           ?as[k := action_at self m d k]),
      \<lparr>plant = snd (transition (plant (before_step self m d k)) (action_at self m d k) (d ! k)),
       controller = snd (Control_controller (controller (before_step self m d k)) k m
                           (get_depth (plant (before_step self m d k))))\<rparr>)"
    unfolding action_at_def
    by (rule loop_body_ok) (use k assms in \<open>simp_all add: before_step_mass\<close>)
  have step: "simulate_loop [0..<Suc k] m d ?s0 ?v0 =
      loop_body k m d (before_step self m d k) (?ps, ?as)"
    by (simp add: simulate_loop_append IH split: sum.splits prod.splits)
  have next_state: "before_step self m d (Suc k) = snd (loop_body k m d (before_step self m d k) (?ps, ?as))"
    using step by (simp add: before_step_def)
  show ?case
    unfolding step next_state
    by (simp add: body update_next [OF k])
qed

subsection \<open>What a run depends on\<close>

lemma loop_body_same_inputs:
  assumes "same_run_inputs a b"
  shows "fst (loop_body t m d a vars) = fst (loop_body t m d b vars)
         \<and> same_run_inputs (snd (loop_body t m d a vars)) (snd (loop_body t m d b vars))"
  using assms
  by (auto simp add: same_run_inputs_def loop_body_def Control_controller_def Let_def
      split: sum.splits prod.splits)

lemma simulate_loop_same_inputs:
  assumes "same_run_inputs a b"
  shows "fst (simulate_loop ts m d a vars) = fst (simulate_loop ts m d b vars)"
  using assms
proof (induction ts arbitrary: a b vars)
  case Nil
  show ?case by simp
next
  case (Cons t ts)
  obtain ra sa where a: "loop_body t m d a vars = (ra, sa)"
    by (cases "loop_body t m d a vars")
  obtain rb sb where b: "loop_body t m d b vars = (rb, sb)"
    by (cases "loop_body t m d b vars")
  from loop_body_same_inputs [OF Cons.prems, of t m d vars] a b
  have r: "ra = rb" and s: "same_run_inputs sa sb" by simp_all
  show ?case
  proof (cases ra)
    case (Inl e)
    with r have "rb = Inl e" by simp
    with Inl show ?thesis by (simp add: a b)
  next
    case (Inr v)
    with r have "rb = Inr v" by simp
    with Inr Cons.IH [OF s, of v] show ?thesis by (simp add: a b)
  qed
qed

lemma simulate_same_inputs:
  assumes "mass (plant a) = mass (plant b)" "drag (plant a) = drag (plant b)"
    "actuator_gain (plant a) = actuator_gain (plant b)" "dt (plant a) = dt (plant b)"
    "Kp (controller a) = Kp (controller b)" "Kd (controller a) = Kd (controller b)"
    "previous_error (controller a) = previous_error (controller b)"
  shows "fst (simulate a m d) = fst (simulate b m d)"
proof -
  have "Submarine.more (plant a) = Submarine.more (plant b)" by simp
  with assms have "reset_state (plant a) = reset_state (plant b)"
    by (simp add: reset_state_def Submarine.equality)
  with assms have "same_run_inputs (a\<lparr>plant := reset_state (plant a)\<rparr>) (b\<lparr>plant := reset_state (plant b)\<rparr>)"
    by (simp add: same_run_inputs_def)
  note same = this
  let ?T = "length (reference m)"
  let ?v0 = "(replicate ?T (0::real, 0::real), replicate ?T (0::real))"
  obtain ra sa where a: "simulate_loop [0..<?T] m d (a\<lparr>plant := reset_state (plant a)\<rparr>) ?v0 = (ra, sa)"
    by (cases "simulate_loop [0..<?T] m d (a\<lparr>plant := reset_state (plant a)\<rparr>) ?v0")
  obtain rb sb where b: "simulate_loop [0..<?T] m d (b\<lparr>plant := reset_state (plant b)\<rparr>) ?v0 = (rb, sb)"
    by (cases "simulate_loop [0..<?T] m d (b\<lparr>plant := reset_state (plant b)\<rparr>) ?v0")
  from simulate_loop_same_inputs [OF same, of "[0..<?T]" m d ?v0] a b have r: "ra = rb"
    by simp
  show ?thesis
    by (cases rb) (simp_all add: simulate_def Let_def a b r)
qed

lemma simulate_frame:
  "mass (plant (snd (simulate a m d))) = mass (plant a)
   \<and> drag (plant (snd (simulate a m d))) = drag (plant a)
   \<and> actuator_gain (plant (snd (simulate a m d))) = actuator_gain (plant a)
   \<and> dt (plant (snd (simulate a m d))) = dt (plant a)
   \<and> Kp (controller (snd (simulate a m d))) = Kp (controller a)
   \<and> Kd (controller (snd (simulate a m d))) = Kd (controller a)"
proof (cases "length d < length (reference m)")
  case True
  then show ?thesis by (simp add: simulate_def)
next
  case False
  obtain r s where e: "simulate_loop [0..<length (reference m)] m d (a\<lparr>plant := reset_state (plant a)\<rparr>)
      (replicate (length (reference m)) (0, 0), replicate (length (reference m)) 0) = (r, s)"
    by (cases "simulate_loop [0..<length (reference m)] m d (a\<lparr>plant := reset_state (plant a)\<rparr>)
      (replicate (length (reference m)) (0, 0), replicate (length (reference m)) 0)")
  from simulate_loop_frame [OF e] have f: "mass (plant s) = mass (plant a)
     \<and> drag (plant s) = drag (plant a) \<and> actuator_gain (plant s) = actuator_gain (plant a)
     \<and> dt (plant s) = dt (plant a) \<and> Kp (controller s) = Kp (controller a)
     \<and> Kd (controller s) = Kd (controller a)"
    by (simp add: reset_state_def)
  have "snd (simulate a m d) = s"
    using False by (simp add: simulate_def Let_def e split: sum.splits)
  with f show ?thesis by simp
qed

lemma loop_body_disturbance:
  assumes "t < length d1" "t < length d2" "d1 ! t = d2 ! t"
  shows "loop_body t m d1 s v = loop_body t m d2 s v"
proof -
  from assms have g: "getitem d1 t = getitem d2 t"
    by (simp add: getitem_def)
  show ?thesis
    unfolding loop_body_def g ..
qed

lemma simulate_loop_disturbance:
  assumes "\<And>t. t \<in> set ts \<Longrightarrow> t < length d1 \<and> t < length d2 \<and> d1 ! t = d2 ! t"
  shows "simulate_loop ts m d1 s v = simulate_loop ts m d2 s v"
  using assms
proof (induction ts arbitrary: s v)
  case Nil
  show ?case by simp
next
  case (Cons t ts)
  have "loop_body t m d1 s v = loop_body t m d2 s v"
    using Cons.prems [of t] by (simp add: loop_body_disturbance)
  moreover have "simulate_loop ts m d1 s' v' = simulate_loop ts m d2 s' v'" for s' v'
    using Cons.prems by (intro Cons.IH) simp
  ultimately show ?case by (simp split: prod.splits sum.splits)
qed

subsection \<open>Evaluating concrete runs\<close>

lemmas run_defs =
  simulate_def simulate_loop.simps loop_body_def Control_controller_def transition_def
  getitem_def setitem_def get_position_def get_depth_def reset_state_def
  Submarine_init_def Control_init_def ClosedLoop_init_def Let_def

lemma upt_1: "[0..<1] = [0]"
  by (simp add: upt_rec)

lemma upt_2: "[0..<2] = [0, 1]"
  by (simp add: upt_rec)

lemma upt_3: "[0..<3] = [0, 1, 2]"
  by (simp add: upt_rec)

lemma replicate_3: "replicate 3 x = [x, x, x]"
  by (simp add: eval_nat_numeral)

section \<open>The claims\<close>

subsection \<open>The length check\<close>

text \<open>
  C1. When the disturbance sequence is shorter than the mission's reference,
  \<open>simulate\<close> raises its \<^verbatim>\<open>ValueError\<close> (the insufficient-disturbance-length error)
  and nothing else happens: no trajectory, partial or full, is returned, and the
  plant and the controller are the objects of the call, untouched, so no loop step
  ran. The disturbance sequence is only measured, never cut or extended.
\<close>

theorem simulate_short_disturbances_fails:
  assumes "length disturbances < length (reference mission)"
  shows "simulate self mission disturbances =
           (Inl (ValueError ''Disturbances must be at least as long as mission duration''), self)"
  using assms by (simp add: simulate_def)

theorem simulate_short_disturbances_fails_witness:
  "length [0.5 :: real] < length (reference \<lparr>reference = [1, 2], cave_height = [3, 3], cave_depth = [-3, -3]\<rparr>)
   \<and> simulate (ClosedLoop_init Submarine_init Control_init)
        \<lparr>reference = [1, 2], cave_height = [3, 3], cave_depth = [-3, -3]\<rparr> [0.5]
      = (Inl (ValueError ''Disturbances must be at least as long as mission duration''),
         ClosedLoop_init Submarine_init Control_init)"
  using simulate_short_disturbances_fails
    [of "[0.5]" "\<lparr>reference = [1, 2], cave_height = [3, 3], cave_depth = [-3, -3]\<rparr>"
        "ClosedLoop_init Submarine_init Control_init"]
  by simp

text \<open>
  C2, as stated, fails: the check raises before \<open>reset_state\<close> is called, so a plant
  that has moved (here to along-track position 3, depth 0.6, depth velocity 0.2)
  is still there after the failure and is not in the reset state.
\<close>

theorem simulate_failure_plant_counterexample:
  "length ([] :: real list) < length (reference \<lparr>reference = [0], cave_height = [1], cave_depth = [-1]\<rparr>)
   \<and> plant (snd (simulate \<lparr>plant = Submarine_init\<lparr>pos_x := 3, pos_y := 0.6, vel_y := 0.2\<rparr>,
                           controller = Control_init\<rparr>
                   \<lparr>reference = [0], cave_height = [1], cave_depth = [-1]\<rparr> []))
       \<noteq> reset_state (Submarine_init\<lparr>pos_x := 3, pos_y := 0.6, vel_y := 0.2\<rparr>)
   \<and> pos_x (plant (snd (simulate \<lparr>plant = Submarine_init\<lparr>pos_x := 3, pos_y := 0.6, vel_y := 0.2\<rparr>,
                           controller = Control_init\<rparr>
                   \<lparr>reference = [0], cave_height = [1], cave_depth = [-1]\<rparr> []))) = 3"
  by (simp add: simulate_def reset_state_def Submarine_init_def)

text \<open>
  C2, amended. When the disturbance sequence is shorter than the mission's
  reference, the plant (and the controller) after the failure is exactly the plant
  (and the controller) of the moment of the call: nothing is mutated, and the plant
  is not reset.
\<close>

theorem simulate_failure_leaves_plant:
  assumes "length disturbances < length (reference mission)"
  shows "plant (snd (simulate self mission disturbances)) = plant self
         \<and> controller (snd (simulate self mission disturbances)) = controller self"
  using assms by (simp add: simulate_def)

theorem simulate_failure_leaves_plant_witness:
  "length ([] :: real list) < length (reference \<lparr>reference = [0], cave_height = [1], cave_depth = [-1]\<rparr>)
   \<and> plant (snd (simulate \<lparr>plant = Submarine_init\<lparr>pos_x := 3, pos_y := 0.6, vel_y := 0.2\<rparr>,
                           controller = Control_init\<rparr>
                   \<lparr>reference = [0], cave_height = [1], cave_depth = [-1]\<rparr> []))
       = Submarine_init\<lparr>pos_x := 3, pos_y := 0.6, vel_y := 0.2\<rparr>"
  using simulate_failure_leaves_plant [of "[]" "\<lparr>reference = [0], cave_height = [1], cave_depth = [-1]\<rparr>"
      "\<lparr>plant = Submarine_init\<lparr>pos_x := 3, pos_y := 0.6, vel_y := 0.2\<rparr>, controller = Control_init\<rparr>"]
  by simp

subsection \<open>The plant\<close>

text \<open>
  C3. For a plant of nonzero mass, \<open>transition\<close> adds to each position the velocity
  of before the call times \<open>dt\<close>, and adds to the depth velocity
  \<open>dt * (- drag * vel_y + actuator_gain * (action + disturbance)) / mass\<close>, also
  computed from the depth velocity of before the call. In particular the new depth
  is the same whatever the action and the disturbance of this step are.
\<close>

theorem transition_explicit_euler:
  assumes "mass self \<noteq> 0"
  shows "transition self action disturbance =
           (Inr (),
            self\<lparr>pos_x := pos_x self + vel_x self * dt self,
                 pos_y := pos_y self + vel_y self * dt self,
                 vel_y := vel_y self
                   + dt self * (- drag self * vel_y self
                                + actuator_gain self * (action + disturbance)) / mass self\<rparr>)
         \<and> pos_y (snd (transition self action disturbance))
             = pos_y (snd (transition self action' disturbance'))"
  using assms by (simp add: transition_def Let_def)

theorem transition_explicit_euler_witness:
  "mass (Submarine_init\<lparr>pos_y := 2, vel_y := 0.5\<rparr>) \<noteq> 0
   \<and> transition (Submarine_init\<lparr>pos_y := 2, vel_y := 0.5\<rparr>) 0.75 0.25 =
       (Inr (), Submarine_init\<lparr>pos_x := 1, pos_y := 2.5, vel_y := 1.45\<rparr>)"
  using transition_explicit_euler [of "Submarine_init\<lparr>pos_y := 2, vel_y := 0.5\<rparr>" "0.75" "0.25" 0 0]
  by (simp add: Submarine_init_def)

text \<open>
  C4. \<open>transition\<close> leaves the along-track velocity, the mass, the drag, the
  actuator gain and the time step as they were, whether it returns or raises. The
  along-track velocity is 1 after construction and after \<open>reset_state\<close>, and it is 1
  at every index a run of \<open>simulate\<close> reaches.
\<close>

theorem transition_keeps_vel_x:
  "vel_x (snd (transition self action disturbance)) = vel_x self
   \<and> mass (snd (transition self action disturbance)) = mass self
   \<and> drag (snd (transition self action disturbance)) = drag self
   \<and> actuator_gain (snd (transition self action disturbance)) = actuator_gain self
   \<and> dt (snd (transition self action disturbance)) = dt self
   \<and> vel_x Submarine_init = 1
   \<and> vel_x (reset_state self) = 1
   \<and> vel_x (plant (before_step cl mission disturbances t)) = 1"
proof -
  obtain r p where t: "transition self action disturbance = (r, p)"
    by (cases "transition self action disturbance")
  obtain r' s where e: "simulate_loop [0..<t] mission disturbances (cl\<lparr>plant := reset_state (plant cl)\<rparr>)
      (replicate (length (reference mission)) (0, 0), replicate (length (reference mission)) 0) = (r', s)"
    by (cases "simulate_loop [0..<t] mission disturbances (cl\<lparr>plant := reset_state (plant cl)\<rparr>)
      (replicate (length (reference mission)) (0, 0), replicate (length (reference mission)) 0)")
  from simulate_loop_frame [OF e] have "vel_x (plant s) = 1"
    by (simp add: reset_state_def)
  then have "vel_x (plant (before_step cl mission disturbances t)) = 1"
    by (simp add: before_step_def e)
  with transition_frame [OF t] show ?thesis
    by (simp add: t Submarine_init_def reset_state_def)
qed

subsection \<open>The controller\<close>

text \<open>
  C5. At an index \<open>t\<close> of the reference, \<open>controller\<close> returns
  \<open>Kp * error + Kd * (error - previous_error)\<close> with
  \<open>error = reference[t] - observed_depth\<close>, and leaves \<open>previous_error = error\<close>. A
  freshly constructed controller has \<open>previous_error = 0\<close>, so its first derivative
  term is \<open>Kd\<close> times the first error itself.
\<close>

theorem controller_pd_law:
  assumes "t < length (reference mission)"
  shows "fst (Control_controller self t mission observed_depth)
           = Inr (Kp self * (reference mission ! t - observed_depth)
                  + Kd self * ((reference mission ! t - observed_depth) - previous_error self))
         \<and> previous_error (snd (Control_controller self t mission observed_depth))
             = reference mission ! t - observed_depth
         \<and> previous_error Control_init = 0
         \<and> fst (Control_controller Control_init t mission observed_depth)
             = Inr (0.15 * (reference mission ! t - observed_depth)
                    + 0.6 * (reference mission ! t - observed_depth))"
  using assms by (simp add: Control_controller_ok Control_init_def)

theorem controller_pd_law_witness:
  "(1::nat) < length (reference \<lparr>reference = [0, 2], cave_height = [3, 3], cave_depth = [-3, -3]\<rparr>)
   \<and> fst (Control_controller (Control_init\<lparr>previous_error := 1\<rparr>) 1
            \<lparr>reference = [0, 2], cave_height = [3, 3], cave_depth = [-3, -3]\<rparr> 0.5)
       = Inr 0.525
   \<and> previous_error (snd (Control_controller (Control_init\<lparr>previous_error := 1\<rparr>) 1
            \<lparr>reference = [0, 2], cave_height = [3, 3], cave_depth = [-3, -3]\<rparr> 0.5)) = 1.5"
  using controller_pd_law [of 1 "\<lparr>reference = [0, 2], cave_height = [3, 3], cave_depth = [-3, -3]\<rparr>"
      "Control_init\<lparr>previous_error := 1\<rparr>" "0.5"]
  by (simp add: Control_init_def)

subsection \<open>A whole run\<close>

text \<open>
  C6. For a plant of nonzero mass and a disturbance sequence at least as long as
  the reference, of length \<open>T\<close>, \<open>simulate\<close> returns a trajectory of length \<open>T\<close> whose
  entry \<open>t\<close> is the position of the plant when the loop reaches index \<open>t\<close>: its depth
  is the observation the controller gets at \<open>t\<close>, and the transition of step \<open>t\<close>,
  with that action and \<open>disturbances[t]\<close>, is applied to this plant only afterwards,
  giving the plant of index \<open>t + 1\<close>.
\<close>

theorem simulate_trajectory_before_actuation:
  assumes "length (reference mission) \<le> length disturbances"
    and "mass (plant self) \<noteq> 0"
  shows "simulate self mission disturbances =
           (Inr \<lparr>position = map (\<lambda>t. get_position (plant (before_step self mission disturbances t)))
                               [0..<length (reference mission)]\<rparr>,
            before_step self mission disturbances (length (reference mission)))
         \<and> length (position (projr (fst (simulate self mission disturbances))))
             = length (reference mission)
         \<and> (\<forall>t < length (reference mission).
               position (projr (fst (simulate self mission disturbances))) ! t
                 = get_position (plant (before_step self mission disturbances t))
               \<and> Control_controller (controller (before_step self mission disturbances t)) t mission
                    (snd (position (projr (fst (simulate self mission disturbances))) ! t))
                  = (Inr (action_at self mission disturbances t),
                     controller (before_step self mission disturbances (Suc t)))
               \<and> transition (plant (before_step self mission disturbances t))
                    (action_at self mission disturbances t) (disturbances ! t)
                  = (Inr (), plant (before_step self mission disturbances (Suc t))))"
proof -
  let ?T = "length (reference mission)"
  let ?b = "before_step self mission disturbances"
  have run: "simulate self mission disturbances =
           (Inr \<lparr>position = map (\<lambda>t. get_position (plant (?b t))) [0..<?T]\<rparr>, ?b ?T)"
    using assms run_prefix [OF assms, of ?T] by (simp add: simulate_def Let_def)
  have steps: "Control_controller (controller (?b t)) t mission (get_depth (plant (?b t)))
                  = (Inr (action_at self mission disturbances t), controller (?b (Suc t)))
               \<and> transition (plant (?b t)) (action_at self mission disturbances t) (disturbances ! t)
                  = (Inr (), plant (?b (Suc t)))" if t: "t < ?T" for t
  proof -
    let ?ps = "map (\<lambda>t. get_position (plant (?b t))) [0..<t] @ replicate (?T - t) (0, 0)"
    let ?as = "map (action_at self mission disturbances) [0..<t] @ replicate (?T - t) 0"
    from t have le: "t \<le> ?T" "Suc t \<le> ?T" by simp_all
    have m: "mass (plant (?b t)) \<noteq> 0"
      using assms(2) by (simp add: before_step_mass)
    have "?b (Suc t) = snd (loop_body t mission disturbances (?b t) (?ps, ?as))"
      using run_prefix [OF assms le(1)]
      by (simp add: before_step_def [of _ _ _ "Suc t"] simulate_loop_append
          split: sum.splits prod.splits)
    also have "\<dots> = \<lparr>plant = snd (transition (plant (?b t)) (action_at self mission disturbances t)
                          (disturbances ! t)),
                     controller = snd (Control_controller (controller (?b t)) t mission
                          (get_depth (plant (?b t))))\<rparr>"
      using t assms m by (simp add: loop_body_ok action_at_def)
    finally have nxt: "?b (Suc t) = \<lparr>plant = snd (transition (plant (?b t))
                          (action_at self mission disturbances t) (disturbances ! t)),
                     controller = snd (Control_controller (controller (?b t)) t mission
                          (get_depth (plant (?b t))))\<rparr>" .
    show ?thesis
      using t m by (simp add: nxt action_at_def Control_controller_ok transition_ok)
  qed
  show ?thesis
    using steps by (simp add: run get_position_def get_depth_def)
qed

theorem simulate_trajectory_before_actuation_witness:
  "length (reference \<lparr>reference = [1, 1, 1], cave_height = [2, 2, 2], cave_depth = [-2, -2, -2]\<rparr>)
     \<le> length [0, 0, 0, 7 :: real]
   \<and> mass (plant (ClosedLoop_init Submarine_init Control_init)) \<noteq> 0
   \<and> length (position (projr (fst (simulate (ClosedLoop_init Submarine_init Control_init)
          \<lparr>reference = [1, 1, 1], cave_height = [2, 2, 2], cave_depth = [-2, -2, -2]\<rparr>
          [0, 0, 0, 7])))) = 3
   \<and> position (projr (fst (simulate (ClosedLoop_init Submarine_init Control_init)
          \<lparr>reference = [1, 1, 1], cave_height = [2, 2, 2], cave_depth = [-2, -2, -2]\<rparr>
          [0, 0, 0, 7]))) ! 2
       = get_position (plant (before_step (ClosedLoop_init Submarine_init Control_init)
          \<lparr>reference = [1, 1, 1], cave_height = [2, 2, 2], cave_depth = [-2, -2, -2]\<rparr>
          [0, 0, 0, 7] 2))
   \<and> get_position (plant (before_step (ClosedLoop_init Submarine_init Control_init)
          \<lparr>reference = [1, 1, 1], cave_height = [2, 2, 2], cave_depth = [-2, -2, -2]\<rparr>
          [0, 0, 0, 7] 2)) = (2, 0.75)"
proof -
  let ?m = "\<lparr>reference = [1, 1, 1], cave_height = [2, 2, 2], cave_depth = [-2, -2, -2 :: real]\<rparr>"
  let ?d = "[0, 0, 0, 7 :: real]"
  let ?s = "ClosedLoop_init Submarine_init Control_init"
  have h1: "length (reference ?m) \<le> length ?d" by simp
  have h2: "mass (plant ?s) \<noteq> 0" by (simp add: ClosedLoop_init_def Submarine_init_def)
  have v: "get_position (plant (before_step ?s ?m ?d 2)) = (2, 0.75)"
    by (simp add: before_step_def run_defs upt_2 replicate_3)
  note th = simulate_trajectory_before_actuation [OF h1 h2]
  from th have "length (position (projr (fst (simulate ?s ?m ?d)))) = length (reference ?m)"
    by blast
  then have len: "length (position (projr (fst (simulate ?s ?m ?d)))) = 3"
    by simp
  from th have "\<forall>t < length (reference ?m).
      position (projr (fst (simulate ?s ?m ?d))) ! t = get_position (plant (before_step ?s ?m ?d t))"
    by blast
  moreover have "2 < length (reference ?m)"
    by simp
  ultimately have at2: "position (projr (fst (simulate ?s ?m ?d))) ! 2
      = get_position (plant (before_step ?s ?m ?d 2))"
    by blast
  from h1 h2 len at2 v show ?thesis
    by (intro conjI)
qed

subsection \<open>Two runs in succession\<close>

text \<open>
  C7, as stated, fails: \<open>simulate\<close> resets the plant but not the controller, and
  \<open>Control\<close> has no reset at all, so the second run starts with the
  \<open>previous_error\<close> the first run left. With reference \<open>[1, 1, 1]\<close> and no
  disturbance, fresh objects give the depth 0.75 at index 2, and the second call
  on the same objects gives 0.6.
\<close>

theorem simulate_twice_differs_counterexample:
  "fst (simulate (ClosedLoop_init Submarine_init Control_init)
          \<lparr>reference = [1, 1, 1], cave_height = [2, 2, 2], cave_depth = [-2, -2, -2]\<rparr> [0, 0, 0])
     = Inr \<lparr>position = [(0, 0), (1, 0), (2, 0.75)]\<rparr>
   \<and> fst (simulate
            (snd (simulate (ClosedLoop_init Submarine_init Control_init)
                    \<lparr>reference = [1, 1, 1], cave_height = [2, 2, 2], cave_depth = [-2, -2, -2]\<rparr>
                    [0, 0, 0]))
            \<lparr>reference = [1, 1, 1], cave_height = [2, 2, 2], cave_depth = [-2, -2, -2]\<rparr> [0, 0, 0])
     = Inr \<lparr>position = [(0, 0), (1, 0), (2, 0.6)]\<rparr>
   \<and> fst (simulate
            (snd (simulate (ClosedLoop_init Submarine_init Control_init)
                    \<lparr>reference = [1, 1, 1], cave_height = [2, 2, 2], cave_depth = [-2, -2, -2]\<rparr>
                    [0, 0, 0]))
            \<lparr>reference = [1, 1, 1], cave_height = [2, 2, 2], cave_depth = [-2, -2, -2]\<rparr> [0, 0, 0])
     \<noteq> fst (simulate (ClosedLoop_init Submarine_init Control_init)
          \<lparr>reference = [1, 1, 1], cave_height = [2, 2, 2], cave_depth = [-2, -2, -2]\<rparr> [0, 0, 0])"
  by (simp add: run_defs upt_3 replicate_3)

text \<open>
  C7, amended. Calling \<open>simulate\<close> twice in succession on the same objects, with the
  same mission and the same disturbances, gives the same result (the same
  trajectory, or the same error) whenever the controller's \<open>previous_error\<close> after
  the first call is the one it had before it. The position and the velocity the
  first run left in the plant play no part, since each call resets the plant.
\<close>

theorem simulate_twice_same_previous_error:
  assumes "previous_error (controller (snd (simulate self mission disturbances)))
             = previous_error (controller self)"
  shows "fst (simulate (snd (simulate self mission disturbances)) mission disturbances)
           = fst (simulate self mission disturbances)"
  using assms simulate_frame [of self mission disturbances]
  by (intro simulate_same_inputs) simp_all

theorem simulate_twice_same_previous_error_witness:
  "previous_error (controller (snd (simulate (ClosedLoop_init Submarine_init Control_init)
       \<lparr>reference = [1, 1, 0.75], cave_height = [2, 2, 2], cave_depth = [-2, -2, -2]\<rparr>
       [0, 0, 0])))
     = previous_error (controller (ClosedLoop_init Submarine_init Control_init))
   \<and> fst (simulate
       (snd (simulate (ClosedLoop_init Submarine_init Control_init)
               \<lparr>reference = [1, 1, 0.75], cave_height = [2, 2, 2], cave_depth = [-2, -2, -2]\<rparr>
               [0, 0, 0]))
       \<lparr>reference = [1, 1, 0.75], cave_height = [2, 2, 2], cave_depth = [-2, -2, -2]\<rparr> [0, 0, 0])
     = fst (simulate (ClosedLoop_init Submarine_init Control_init)
              \<lparr>reference = [1, 1, 0.75], cave_height = [2, 2, 2], cave_depth = [-2, -2, -2]\<rparr>
              [0, 0, 0])
   \<and> fst (simulate (ClosedLoop_init Submarine_init Control_init)
          \<lparr>reference = [1, 1, 0.75], cave_height = [2, 2, 2], cave_depth = [-2, -2, -2]\<rparr>
          [0, 0, 0])
     = Inr \<lparr>position = [(0, 0), (1, 0), (2, 0.75)]\<rparr>
   \<and> fst (simulate (ClosedLoop_init Submarine_init (Control_init\<lparr>previous_error := 0.25\<rparr>))
          \<lparr>reference = [1, 1, 0.75], cave_height = [2, 2, 2], cave_depth = [-2, -2, -2]\<rparr>
          [0, 0, 0])
     = Inr \<lparr>position = [(0, 0), (1, 0), (2, 0.6)]\<rparr>"
proof -
  let ?m = "\<lparr>reference = [1, 1, 0.75], cave_height = [2, 2, 2], cave_depth = [-2, -2, -2 :: real]\<rparr>"
  let ?s = "ClosedLoop_init Submarine_init Control_init"
  have h: "previous_error (controller (snd (simulate ?s ?m [0, 0, 0])))
             = previous_error (controller ?s)"
    by (simp add: run_defs upt_3 replicate_3)
  have v: "fst (simulate ?s ?m [0, 0, 0]) = Inr \<lparr>position = [(0, 0), (1, 0), (2, 0.75)]\<rparr>"
    by (simp add: run_defs upt_3 replicate_3)
  have w: "fst (simulate (ClosedLoop_init Submarine_init (Control_init\<lparr>previous_error := 0.25\<rparr>))
                  ?m [0, 0, 0])
             = Inr \<lparr>position = [(0, 0), (1, 0), (2, 0.6)]\<rparr>"
    by (simp add: run_defs upt_3 replicate_3)
  from h simulate_twice_same_previous_error [OF h] v w show ?thesis
    by (intro conjI)
qed

subsection \<open>Constructing a mission\<close>

text \<open>
  C8, as stated, fails: the constructor of \<open>Mission\<close> checks nothing, so three
  sequences of lengths 2, 1 and 0 make a mission.
\<close>

theorem Mission_init_unequal_lengths_counterexample:
  "Mission_init [1, 2] [5] [] = Inr \<lparr>reference = [1, 2], cave_height = [5], cave_depth = []\<rparr>
   \<and> length [1::real, 2] \<noteq> length [5::real]"
  by (simp add: Mission_init_def)

text \<open>
  C8, amended. Constructing a \<open>Mission\<close> never fails: whatever the three sequences
  and their lengths (equal or not, empty or not), the mission is made and holds
  the three sequences as given.
\<close>

theorem Mission_init_accepts_all:
  "Mission_init r h d = Inr \<lparr>reference = r, cave_height = h, cave_depth = d\<rparr>"
  by (simp add: Mission_init_def)

subsection \<open>A concrete run\<close>

text \<open>
  C9. With a freshly constructed plant and controller, the reference \<open>[0, 0, 0]\<close>
  and the disturbances \<open>[0, 0, 0]\<close>, \<open>simulate\<close> returns the trajectory
  \<open>[(0, 0), (1, 0), (2, 0)]\<close>; the action at index 0 is 0 (as are the others), and
  the depth velocity is 0 when the loop reaches each of the indices 0, 1, 2 and
  when it ends.
\<close>

theorem simulate_zero_scenario:
  "simulate (ClosedLoop_init Submarine_init Control_init)
      \<lparr>reference = [0, 0, 0], cave_height = h, cave_depth = c\<rparr> [0, 0, 0]
     = (Inr \<lparr>position = [(0, 0), (1, 0), (2, 0)]\<rparr>,
        \<lparr>plant = Submarine_init\<lparr>pos_x := 3\<rparr>,
         controller = Control_init\<lparr>current_error := Some 0\<rparr>\<rparr>)
   \<and> action_at (ClosedLoop_init Submarine_init Control_init)
        \<lparr>reference = [0, 0, 0], cave_height = h, cave_depth = c\<rparr> [0, 0, 0] 0 = 0
   \<and> map (\<lambda>t. vel_y (plant (before_step (ClosedLoop_init Submarine_init Control_init)
                \<lparr>reference = [0, 0, 0], cave_height = h, cave_depth = c\<rparr> [0, 0, 0] t)))
        [0, 1, 2, 3] = [0, 0, 0, 0]
   \<and> fst (simulate_loop [0..<3] \<lparr>reference = [0, 0, 0], cave_height = h, cave_depth = c\<rparr> [0, 0, 0]
            ((ClosedLoop_init Submarine_init Control_init)\<lparr>plant := reset_state Submarine_init\<rparr>)
            (replicate 3 (0, 0), replicate 3 0))
       = Inr ([(0, 0), (1, 0), (2, 0)], [0, 0, 0])"
  by (simp add: before_step_def action_at_def run_defs upt_1 upt_2 upt_3 replicate_3)

subsection \<open>Disturbances beyond the mission\<close>

text \<open>
  C10. Two disturbance sequences, both at least as long as the reference, of
  length \<open>T\<close>, that agree on the indices below \<open>T\<close> give the same result from the
  same plant and controller: the same trajectory and the same objects afterwards.
  The entries at index \<open>T\<close> and beyond are never read.
\<close>

theorem simulate_ignores_later_disturbances:
  assumes "length (reference mission) \<le> length d1"
    and "length (reference mission) \<le> length d2"
    and "\<forall>t < length (reference mission). d1 ! t = d2 ! t"
  shows "simulate self mission d1 = simulate self mission d2"
proof -
  have "simulate_loop [0..<length (reference mission)] mission d1 s v
        = simulate_loop [0..<length (reference mission)] mission d2 s v" for s v
    using assms by (intro simulate_loop_disturbance) simp
  with assms(1,2) show ?thesis by (simp add: simulate_def)
qed

theorem simulate_ignores_later_disturbances_witness:
  "length (reference \<lparr>reference = [1, 1], cave_height = [2, 2], cave_depth = [-2, -2]\<rparr>)
     \<le> length [0.5, 0.25, 9 :: real]
   \<and> length (reference \<lparr>reference = [1, 1], cave_height = [2, 2], cave_depth = [-2, -2]\<rparr>)
     \<le> length [0.5, 0.25, -4, 8 :: real]
   \<and> simulate (ClosedLoop_init Submarine_init Control_init)
        \<lparr>reference = [1, 1], cave_height = [2, 2], cave_depth = [-2, -2]\<rparr> [0.5, 0.25, 9]
     = simulate (ClosedLoop_init Submarine_init Control_init)
        \<lparr>reference = [1, 1], cave_height = [2, 2], cave_depth = [-2, -2]\<rparr> [0.5, 0.25, -4, 8]"
proof -
  let ?m = "\<lparr>reference = [1, 1], cave_height = [2, 2], cave_depth = [-2, -2 :: real]\<rparr>"
  have h1: "length (reference ?m) \<le> length [0.5, 0.25, 9 :: real]" by simp
  have h2: "length (reference ?m) \<le> length [0.5, 0.25, -4, 8 :: real]" by simp
  have h3: "\<forall>t < length (reference ?m). [0.5, 0.25, 9 :: real] ! t = [0.5, 0.25, -4, 8] ! t"
    by (simp add: less_Suc_eq eval_nat_numeral)
  from h1 h2 simulate_ignores_later_disturbances [OF h1 h2 h3] show ?thesis by simp
qed

end
